theory Spec2Isabelle
  imports Main
begin

section \<open>Release validation: openstack\_releases/cmds/validate.py\<close>

text \<open>
  A shallow embedding of \<^verbatim>\<open>is_a_hash\<close> and \<^verbatim>\<open>main\<close> of
  \<^verbatim>\<open>openstack_releases/cmds/validate.py\<close>. The helper modules
  \<^verbatim>\<open>gitutils\<close>, \<^verbatim>\<open>versionutils\<close> and \<^verbatim>\<open>defaults\<close>, and the
  libraries \<^verbatim>\<open>requests\<close>, \<^verbatim>\<open>yaml\<close>, \<^verbatim>\<open>os\<close>, \<^verbatim>\<open>tempfile\<close> and
  \<^verbatim>\<open>shutil\<close> are outside the source: every call into them is a field of the
  environment record \<open>env\<close> below, so each theorem holds for whatever they compute.
\<close>

subsection \<open>The hash format check\<close>

text \<open>
  \<^verbatim>\<open>re.search('^[a-f0-9]{40}$', val, re.I) is not None\<close>.

  \<^item> \<^verbatim>\<open>[a-f0-9]\<close> under \<^verbatim>\<open>re.I\<close> is a hexadecimal digit in either case. No
    character outside ASCII folds to one of \<^verbatim>\<open>a\<close>..\<^verbatim>\<open>f\<close>, so a string of bytes
    and a string of code points are accepted alike.
  \<^item> \<^verbatim>\<open>^\<close> without \<^verbatim>\<open>re.MULTILINE\<close> matches at position 0 only, so the search
    succeeds exactly when the pattern matches from the first character.
  \<^item> \<^verbatim>\<open>{40}\<close> consumes exactly forty characters of the class.
  \<^item> \<^verbatim>\<open>$\<close> without \<^verbatim>\<open>re.MULTILINE\<close> matches at the end of the string and also
    just before a line feed that is the last character of the string.
\<close>

definition hex_class_ci :: "char \<Rightarrow> bool" where
  "hex_class_ci c \<longleftrightarrow> c \<in> set ''abcdef0123456789'' \<or> c \<in> set ''ABCDEF''"

fun match_class_n :: "nat \<Rightarrow> string \<Rightarrow> string option" where
  "match_class_n 0 s = Some s"
| "match_class_n (Suc n) [] = None"
| "match_class_n (Suc n) (c # s) = (if hex_class_ci c then match_class_n n s else None)"

definition at_dollar :: "string \<Rightarrow> bool" where
  "at_dollar rest \<longleftrightarrow> rest = [] \<or> rest = [CHR 0x0A]"

definition is_a_hash :: "string \<Rightarrow> bool" where
  "is_a_hash val = (case match_class_n 40 val of None \<Rightarrow> False | Some rest \<Rightarrow> at_dollar rest)"

subsection \<open>The input: deliverable files\<close>

text \<open>
  \<^verbatim>\<open>yaml.load\<close> gives nested dictionaries and lists. The keys the code reads by
  subscript without a handler (\<^verbatim>\<open>releases\<close>, \<^verbatim>\<open>version\<close>, \<^verbatim>\<open>projects\<close>,
  \<^verbatim>\<open>repo\<close>, \<^verbatim>\<open>hash\<close>) are fields that are always present, and their values
  are strings; the two keys read under \<^verbatim>\<open>try ... except KeyError\<close> are optional.
\<close>

record project =
  repo :: string
  hash :: string

record release =
  version :: string
  projects :: "project list"

record deliverable_info =
  launchpad :: "string option"
  send_announcements_to :: "string option"
  releases :: "release list"

text \<open>The parsed command line: \<^verbatim>\<open>--no-cleanup\<close> stores False in \<open>cleanup\<close>.\<close>

record args =
  cleanup :: bool
  input :: "string list"

subsection \<open>Errors, exceptions and the calls into the repository helpers\<close>

text \<open>
  \<open>errors\<close> is a list of messages. Each \<^verbatim>\<open>errors.append\<close> of the source is one
  constructor, carrying the values the message template is filled with, in the order
  of the template:
  \<^item> \<open>NoLaunchpad filename\<close>: \<^verbatim>\<open>'No launchpad project given in %s'\<close>
  \<^item> \<open>LaunchpadMissing lp_name\<close>: \<^verbatim>\<open>'Launchpad project %s does not exist'\<close>
  \<^item> \<open>NoAnnounce filename\<close>: \<^verbatim>\<open>'No send-announcements-to in %s'\<close>
  \<^item> \<open>SpaceInAnnounce announce_to filename\<close>:
    \<^verbatim>\<open>'Space in send-announcements-to (%r) for %s'\<close>
  \<^item> \<open>VersionError e\<close>: a message \<open>e\<close> of \<^verbatim>\<open>versionutils.validate_version\<close>
  \<^item> \<open>NotAHash repo version hash\<close>:
    \<^verbatim>\<open>'%(repo)s version %(version)s release from %(hash)r, which is not a hash'\<close>
  \<^item> \<open>NoCommit hash repo\<close>: \<^verbatim>\<open>'No commit %(hash)r in %(repo)r'\<close>
  \<^item> \<open>TagMismatch version repo actual_sha hash\<close>:
    \<^verbatim>\<open>'Version %s in %s is on commit %s instead of %s'\<close>
  \<^item> \<open>NotDescendant repo hash prev_version\<close>: \<^verbatim>\<open>'%s %s is not a descendant of %s'\<close>
\<close>

datatype diag =
    NoLaunchpad string
  | LaunchpadMissing string
  | NoAnnounce string
  | SpaceInAnnounce string string
  | VersionError string
  | NotAHash string string string
  | NoCommit string string
  | TagMismatch string string string string
  | NotDescendant string string string

text \<open>
  \<^verbatim>\<open>requests.get\<close> raises on a timeout or a connection failure
  (\<^verbatim>\<open>requests.exceptions.RequestException\<close>); \<^verbatim>\<open>main\<close> has no handler for it.
\<close>

datatype exn = RequestException

text \<open>The calls into \<^verbatim>\<open>gitutils\<close>, recorded in the order they are made.\<close>

datatype git_call =
    CommitExists string string
  | CloneRepo string string
  | ShaForTag string string string
  | CheckAncestry string string string string

text \<open>
  Everything \<^verbatim>\<open>main\<close> asks of its surroundings. The repository helpers are taken
  as functions of their arguments that return normally.
  \<^item> \<open>find_modified_deliverable_files\<close>: \<^verbatim>\<open>gitutils.find_modified_deliverable_files()\<close>
  \<^item> \<open>glob_release\<close>: \<^verbatim>\<open>glob.glob('deliverables/' + defaults.RELEASE + '/*.yaml')\<close>
  \<^item> \<open>mkdtemp\<close>: \<^verbatim>\<open>tempfile.mkdtemp(prefix='releases-')\<close>
  \<^item> \<open>rmtree\<close>: whether \<^verbatim>\<open>shutil.rmtree\<close> of the directory succeeds (it raises otherwise)
  \<^item> \<open>isfile\<close>: \<^verbatim>\<open>os.path.isfile\<close>
  \<^item> \<open>yaml_load\<close>: \<^verbatim>\<open>yaml.load\<close> of the file's contents
  \<^item> \<open>requests_get\<close>: the status code \<^verbatim>\<open>requests.get(url)\<close> answers with, or the
    exception it raises
  \<^item> \<open>validate_version\<close>: \<^verbatim>\<open>versionutils.validate_version(version)\<close>
  \<^item> \<open>commit_exists\<close>: \<^verbatim>\<open>gitutils.commit_exists(repo, ref)\<close>
  \<^item> \<open>sha_for_tag\<close>: \<^verbatim>\<open>gitutils.sha_for_tag(workdir, repo, version)\<close>
  \<^item> \<open>check_ancestry\<close>: \<^verbatim>\<open>gitutils.check_ancestry(workdir, repo, old_version, sha)\<close>
\<close>

record env =
  find_modified_deliverable_files :: "string list"
  glob_release :: "string list"
  mkdtemp :: string
  rmtree :: "string \<Rightarrow> bool"
  isfile :: "string \<Rightarrow> bool"
  yaml_load :: "string \<Rightarrow> deliverable_info"
  requests_get :: "string \<Rightarrow> exn + int"
  validate_version :: "string \<Rightarrow> string list"
  commit_exists :: "string \<Rightarrow> string \<Rightarrow> bool"
  sha_for_tag :: "string \<Rightarrow> string \<Rightarrow> string \<Rightarrow> string"
  check_ancestry :: "string \<Rightarrow> string \<Rightarrow> string \<Rightarrow> string \<Rightarrow> bool"

text \<open>
  The local variables of \<^verbatim>\<open>main\<close> that the loops update, and the log of
  repository calls. \<open>prev_version\<close> is \<open>None\<close> for Python's \<^verbatim>\<open>None\<close>.
\<close>

record state =
  errors :: "diag list"
  calls :: "git_call list"
  prev_version :: "string option"
  prev_projects :: "string set"

definition add_error :: "diag \<Rightarrow> state \<Rightarrow> state" where
  "add_error e st = st\<lparr>errors := errors st @ [e]\<rparr>"

definition log_call :: "git_call \<Rightarrow> state \<Rightarrow> state" where
  "log_call c st = st\<lparr>calls := calls st @ [c]\<rparr>"

subsection \<open>The body of the loop over the projects of a release (lines 131 to 211)\<close>

text \<open>
  \<^verbatim>\<open>if not prev_version\<close> is Python truthiness: it holds for \<^verbatim>\<open>None\<close> and for the
  empty string.
\<close>

definition check_project :: "env \<Rightarrow> string \<Rightarrow> release \<Rightarrow> project \<Rightarrow> state \<Rightarrow> state" where
  "check_project env workdir rel p st =
    (if \<not> is_a_hash (hash p) then
       add_error (NotAHash (repo p) (version rel) (hash p)) st
     else
       let sha_exists = commit_exists env (repo p) (hash p);
           st1 = log_call (CommitExists (repo p) (hash p)) st;
           st2 = (if \<not> sha_exists then add_error (NoCommit (hash p) (repo p)) st1 else st1);
           version_exists = commit_exists env (repo p) (version rel);
           st3 = log_call (CommitExists (repo p) (version rel)) st2;
           st4 = log_call (CloneRepo workdir (repo p)) st3
       in
         if version_exists then
           let actual_sha = sha_for_tag env workdir (repo p) (version rel);
               st5 = log_call (ShaForTag workdir (repo p) (version rel)) st4
           in
             if actual_sha = hash p then st5
             else add_error (TagMismatch (version rel) (repo p) actual_sha (hash p)) st5
         else
           (case prev_version st4 of
              None \<Rightarrow> st4
            | Some pv \<Rightarrow>
                if pv = [] then st4
                else if repo p \<notin> prev_projects st4 then st4
                else
                  let is_ancestor = check_ancestry env workdir (repo p) pv (hash p);
                      st5 = log_call (CheckAncestry workdir (repo p) pv (hash p)) st4
                  in
                    if is_ancestor then st5
                    else add_error (NotDescendant (repo p) (hash p) pv) st5))"

subsection \<open>The loop over the releases of a deliverable (lines 125 to 213)\<close>

definition check_release :: "env \<Rightarrow> string \<Rightarrow> release \<Rightarrow> state \<Rightarrow> state" where
  "check_release env workdir rel st =
    (let st1 = st\<lparr>errors := errors st @ map VersionError (validate_version env (version rel))\<rparr>;
         st2 = fold (check_project env workdir rel) (projects rel) st1
     in st2\<lparr>prev_version := Some (version rel),
            prev_projects := set (map repo (projects rel))\<rparr>)"

definition check_releases :: "env \<Rightarrow> string \<Rightarrow> release list \<Rightarrow> state \<Rightarrow> state" where
  "check_releases env workdir rels st = fold (check_release env workdir) rels st"

subsection \<open>The checks of one file (lines 86 to 213)\<close>

definition check_launchpad :: "env \<Rightarrow> string \<Rightarrow> deliverable_info \<Rightarrow> state \<Rightarrow> exn + state" where
  "check_launchpad env filename d st =
    (case launchpad d of
       None \<Rightarrow> Inr (add_error (NoLaunchpad filename) st)
     | Some lp_name \<Rightarrow>
         (case requests_get env (''https://api.launchpad.net/1.0/'' @ lp_name) of
            Inl e \<Rightarrow> Inl e
          | Inr status_code \<Rightarrow>
              if status_code div 100 = 4 then Inr (add_error (LaunchpadMissing lp_name) st)
              else Inr st))"

definition check_announce :: "string \<Rightarrow> deliverable_info \<Rightarrow> state \<Rightarrow> state" where
  "check_announce filename d st =
    (case send_announcements_to d of
       None \<Rightarrow> add_error (NoAnnounce filename) st
     | Some announce_to \<Rightarrow>
         if CHR '' '' \<in> set announce_to then add_error (SpaceInAnnounce announce_to filename) st
         else st)"

definition check_file :: "env \<Rightarrow> string \<Rightarrow> string \<Rightarrow> state \<Rightarrow> exn + state" where
  "check_file env workdir filename st =
    (if \<not> isfile env filename then Inr st
     else
       let deliverable_info = yaml_load env filename in
         case check_launchpad env filename deliverable_info st of
           Inl e \<Rightarrow> Inl e
         | Inr st1 \<Rightarrow>
             let st2 = check_announce filename deliverable_info st1;
                 st3 = st2\<lparr>prev_version := None, prev_projects := {}\<rparr>
             in Inr (check_releases env workdir (releases deliverable_info) st3))"

fun check_files :: "env \<Rightarrow> string \<Rightarrow> string list \<Rightarrow> state \<Rightarrow> exn + state" where
  "check_files env workdir [] st = Inr st"
| "check_files env workdir (filename # filenames) st =
     (case check_file env workdir filename st of
        Inl e \<Rightarrow> Inl e
      | Inr st' \<Rightarrow> check_files env workdir filenames st')"

subsection \<open>\<^verbatim>\<open>main\<close> and the process around it\<close>

text \<open>
  The state at line 84. Python binds \<^verbatim>\<open>prev_version\<close> and \<^verbatim>\<open>prev_projects\<close> only
  at lines 123 and 124; nothing reads them before, so any initial value will do.
\<close>

definition init_state :: state where
  "init_state = \<lparr>errors = [], calls = [], prev_version = None, prev_projects = {}\<rparr>"

definition select_filenames :: "env \<Rightarrow> args \<Rightarrow> string list" where
  "select_filenames env a =
    (let filenames = (if input a \<noteq> [] then input a else find_modified_deliverable_files env)
     in if filenames = [] then glob_release env else filenames)"

text \<open>Lines 62 to 213: the state when the loop over the files ends, or the exception.\<close>

definition run :: "env \<Rightarrow> args \<Rightarrow> exn + state" where
  "run env a = check_files env (mkdtemp env) (select_filenames env a) init_state"

text \<open>Line 220: \<^verbatim>\<open>return 1 if errors else 0\<close>.\<close>

definition main :: "env \<Rightarrow> args \<Rightarrow> exn + int" where
  "main env a =
    (case run env a of
       Inl e \<Rightarrow> Inl e
     | Inr st \<Rightarrow> Inr (if errors st \<noteq> [] then 1 else 0))"

text \<open>
  Lines 75 to 83. \<^verbatim>\<open>cleanup_workdir\<close> is registered with \<^verbatim>\<open>atexit\<close>; the
  interpreter calls it when it terminates, after \<^verbatim>\<open>main\<close> has returned or an
  exception has left it. The bare \<^verbatim>\<open>except: pass\<close> swallows a failure of
  \<^verbatim>\<open>shutil.rmtree\<close>, and the directory is then still there. The file system is the
  set of directories that exist.
\<close>

definition cleanup_workdir :: "env \<Rightarrow> args \<Rightarrow> string \<Rightarrow> string set \<Rightarrow> string set" where
  "cleanup_workdir env a workdir dirs =
    (if cleanup a then (if rmtree env workdir then dirs - {workdir} else dirs)
     else dirs)"

definition process :: "env \<Rightarrow> args \<Rightarrow> string set \<Rightarrow> (exn + int) \<times> string set" where
  "process env a dirs =
    (let workdir = mkdtemp env;
         dirs1 = insert workdir dirs;
         result = main env a
     in (result, cleanup_workdir env a workdir dirs1))"

text \<open>
  The status the process exits with when \<^verbatim>\<open>main\<close> is the program
  (\<^verbatim>\<open>sys.exit(main())\<close>): the value \<^verbatim>\<open>main\<close> returns, or 1 when an exception
  leaves \<^verbatim>\<open>main\<close> uncaught, as the interpreter does after printing the traceback.
\<close>

definition exit_status :: "exn + int \<Rightarrow> int" where
  "exit_status r = (case r of Inl e \<Rightarrow> 1 | Inr code \<Rightarrow> code)"

subsection \<open>Auxiliary notions for the statements\<close>

text \<open>The reading of the format the specification gives: forty hexadecimal characters.\<close>

definition hex40 :: "string \<Rightarrow> bool" where
  "hex40 h \<longleftrightarrow> length h = 40 \<and> list_all hex_class_ci h"

text \<open>The messages of \<^verbatim>\<open>validate_version\<close> among the recorded errors, in order.\<close>

definition version_errors :: "diag list \<Rightarrow> string list" where
  "version_errors ds = concat (map (\<lambda>d. case d of VersionError e \<Rightarrow> [e] | _ \<Rightarrow> []) ds)"



text \<open>A state with errors and calls recorded earlier put in front of its own.\<close>

definition prefix_state :: "diag list \<Rightarrow> git_call list \<Rightarrow> state \<Rightarrow> state" where
  "prefix_state es cs st = st\<lparr>errors := es @ errors st, calls := cs @ calls st\<rparr>"

subsection \<open>An example repository and example deliverables\<close>

text \<open>
  One repository, \<^verbatim>\<open>openstack/release-test\<close>, with three commits: \<open>sha_a26e\<close>
  carries the tag \<^verbatim>\<open>1.0.0\<close>, \<open>sha_88af\<close> on another branch carries the tag
  \<^verbatim>\<open>0.9.0\<close>, and \<open>sha_218c\<close> is a descendant of \<open>sha_a26e\<close> only. No commit
  \<open>sha_de28\<close> exists. The tracker answers 200, every version string is valid, and the
  one file that is checked holds a deliverable with the given releases.
\<close>

definition release_test :: string where
  "release_test = ''openstack/release-test''"

definition sha_a26e :: string where
  "sha_a26e = ''a26e6a2e8a5e321b2e3517dbb01a7b9a56a8bfd5''"

definition sha_88af :: string where
  "sha_88af = ''88af0f601895d54fb0a45b796cdd045a2b3636a3''"

definition sha_218c :: string where
  "sha_218c = ''218c9c82f168f1db681b27842b5a829428c6b5e1''"

definition sha_de28 :: string where
  "sha_de28 = ''de2885f544637e6ee6139df7dc7bf937925804dd''"

definition example_deliverable :: "release list \<Rightarrow> deliverable_info" where
  "example_deliverable rels =
     \<lparr>launchpad = Some ''oslo.config'',
      send_announcements_to = Some ''openstack-dev@lists.openstack.org'',
      releases = rels\<rparr>"

definition example_env :: "release list \<Rightarrow> env" where
  "example_env rels =
     \<lparr>find_modified_deliverable_files = [],
      glob_release = [],
      mkdtemp = ''/tmp/releases-0'',
      rmtree = (\<lambda>d. True),
      isfile = (\<lambda>f. True),
      yaml_load = (\<lambda>f. example_deliverable rels),
      requests_get = (\<lambda>url. Inr 200),
      validate_version = (\<lambda>v. []),
      commit_exists = (\<lambda>r ref. r = release_test
          \<and> ref \<in> set [sha_a26e, sha_88af, sha_218c, ''1.0.0'', ''0.9.0'']),
      sha_for_tag = (\<lambda>w r v. if v = ''1.0.0'' then sha_a26e
          else if v = ''0.9.0'' then sha_88af else []),
      check_ancestry = (\<lambda>w r old sha. r = release_test \<and> sha = sha_218c
          \<and> old \<in> set [''1.0.0'', sha_a26e])\<rparr>"

definition example_args :: args where
  "example_args = \<lparr>cleanup = True, input = [''deliverables/example.yaml'']\<rparr>"

definition one_release :: "string \<Rightarrow> string \<Rightarrow> release" where
  "one_release v h = \<lparr>version = v, projects = [\<lparr>repo = release_test, hash = h\<rparr>]\<rparr>"

text \<open>The hash of the tagged commit with a line feed after it, forty-one characters.\<close>

definition sha_a26e_lf :: string where
  "sha_a26e_lf = ''a26e6a2e8a5e321b2e3517dbb01a7b9a56a8bfd5'' @ [CHR 0x0A]"

text \<open>
  The same surroundings where the existence query knows the tag \<^verbatim>\<open>1.0.0\<close> but not
  yet the commits, while the clone resolves the tag to \<open>sha_a26e\<close>.
\<close>

definition lagging_env :: env where
  "lagging_env =
     (example_env [])\<lparr>commit_exists := (\<lambda>r ref. r = release_test \<and> ref = ''1.0.0'')\<rparr>"



text \<open>The same surroundings with a tracker that cannot be reached.\<close>

definition timeout_env :: env where
  "timeout_env =
     (example_env [one_release ''1.0.0'' sha_a26e])\<lparr>requests_get := (\<lambda>url. Inl RequestException)\<rparr>"

text \<open>The same surroundings with a working directory that cannot be removed.\<close>

definition rmtree_fails_env :: env where
  "rmtree_fails_env = (example_env [])\<lparr>rmtree := (\<lambda>d. False)\<rparr>"

section \<open>The hash format check\<close>

lemma match_class_n_Some:
  "match_class_n n s = Some rest \<longleftrightarrow>
     (\<exists>h. s = h @ rest \<and> length h = n \<and> list_all hex_class_ci h)"
proof (induction n s rule: match_class_n.induct)
  case (1 s)
  then show ?case by auto
next
  case (2 n)
  then show ?case by auto
next
  case (3 n c s)
  show ?case
  proof (cases "hex_class_ci c")
    case True
    have "(\<exists>h. c # s = h @ rest \<and> length h = Suc n \<and> list_all hex_class_ci h) \<longleftrightarrow>
          (\<exists>h'. s = h' @ rest \<and> length h' = n \<and> list_all hex_class_ci h')"
    proof
      assume "\<exists>h. c # s = h @ rest \<and> length h = Suc n \<and> list_all hex_class_ci h"
      then obtain h where h: "c # s = h @ rest" "length h = Suc n" "list_all hex_class_ci h"
        by blast
      then obtain h' where "h = c # h'" by (cases h) auto
      with h show "\<exists>h'. s = h' @ rest \<and> length h' = n \<and> list_all hex_class_ci h'"
        by auto
    next
      assume "\<exists>h'. s = h' @ rest \<and> length h' = n \<and> list_all hex_class_ci h'"
      then obtain h' where "s = h' @ rest" "length h' = n" "list_all hex_class_ci h'"
        by blast
      with True have "c # s = (c # h') @ rest \<and> length (c # h') = Suc n
          \<and> list_all hex_class_ci (c # h')" by simp
      then show "\<exists>h. c # s = h @ rest \<and> length h = Suc n \<and> list_all hex_class_ci h"
        by blast
    qed
    with True 3 show ?thesis by simp
  next
    case False
    have "\<not> (\<exists>h. c # s = h @ rest \<and> length h = Suc n \<and> list_all hex_class_ci h)"
    proof
      assume "\<exists>h. c # s = h @ rest \<and> length h = Suc n \<and> list_all hex_class_ci h"
      then obtain h where h: "c # s = h @ rest" "length h = Suc n" "list_all hex_class_ci h"
        by blast
      then obtain h' where "h = c # h'" by (cases h) auto
      with h False show False by simp
    qed
    with False show ?thesis by simp
  qed
qed

text \<open>
  The strings the check accepts: forty hexadecimal characters, alone or followed by one
  line feed.
\<close>

lemma is_a_hash_iff:
  "is_a_hash val \<longleftrightarrow> (\<exists>h. hex40 h \<and> (val = h \<or> val = h @ [CHR 0x0A]))"
proof
  assume "is_a_hash val"
  then obtain rest where r: "match_class_n 40 val = Some rest" "at_dollar rest"
    by (auto simp: is_a_hash_def split: option.splits)
  from r(1) obtain h where "val = h @ rest" "length h = 40" "list_all hex_class_ci h"
    using match_class_n_Some by blast
  with r(2) show "\<exists>h. hex40 h \<and> (val = h \<or> val = h @ [CHR 0x0A])"
    by (auto simp: at_dollar_def hex40_def)
next
  assume "\<exists>h. hex40 h \<and> (val = h \<or> val = h @ [CHR 0x0A])"
  then obtain h where h: "hex40 h" "val = h \<or> val = h @ [CHR 0x0A]" by blast
  then obtain rest where rest: "val = h @ rest" "at_dollar rest"
    by (auto simp: at_dollar_def)
  with h(1) have "match_class_n 40 val = Some rest"
    using match_class_n_Some [of 40 val rest] by (auto simp: hex40_def)
  with rest(2) show "is_a_hash val" by (simp add: is_a_hash_def)
qed

lemma hex40_is_a_hash: "hex40 h \<Longrightarrow> is_a_hash h"
  using is_a_hash_iff by blast

text \<open>
  C1. The format check is said to accept a string if and only if the string is exactly
  forty hexadecimal characters in either case, and to reject every other string. It
  accepts every such string (\<open>hex40_is_a_hash\<close>), but it also accepts forty
  hexadecimal characters followed by one line feed, a string of forty-one characters:
  \<^verbatim>\<open>$\<close> matches before a final line feed.
\<close>

theorem C1_trailing_newline_accepted:
  "is_a_hash (''aaaaaaaaaaaaaaaaaaaaaaaaaaaaaaaaaaaaaaaa'' @ [CHR 0x0A])
   \<and> \<not> hex40 (''aaaaaaaaaaaaaaaaaaaaaaaaaaaaaaaaaaaaaaaa'' @ [CHR 0x0A])
   \<and> length (''aaaaaaaaaaaaaaaaaaaaaaaaaaaaaaaaaaaaaaaa'' @ [CHR 0x0A]) = 41"
  by (simp add: is_a_hash_def hex40_def at_dollar_def hex_class_ci_def eval_nat_numeral)

section \<open>Facts about the example repository\<close>

lemma sha_wf: "is_a_hash sha_a26e" "is_a_hash sha_88af" "is_a_hash sha_218c" "is_a_hash sha_de28"
  by (simp_all add: sha_a26e_def sha_88af_def sha_218c_def sha_de28_def
      is_a_hash_def at_dollar_def hex_class_ci_def eval_nat_numeral)

lemma sha_neq:
  "sha_a26e \<noteq> sha_88af" "sha_88af \<noteq> sha_a26e" "sha_218c \<noteq> sha_a26e" "sha_218c \<noteq> sha_88af"
  "sha_de28 \<noteq> sha_a26e" "sha_de28 \<noteq> sha_88af" "sha_de28 \<noteq> sha_218c" "sha_a26e \<noteq> sha_de28"
  by (simp_all add: sha_a26e_def sha_88af_def sha_218c_def sha_de28_def)

lemma sha_version_neq:
  "''1.0.0'' \<noteq> sha_a26e" "''1.0.0'' \<noteq> sha_88af" "''1.0.0'' \<noteq> sha_218c" "''1.0.0'' \<noteq> sha_de28"
  "''0.9.0'' \<noteq> sha_a26e" "''0.9.0'' \<noteq> sha_88af" "''0.9.0'' \<noteq> sha_218c" "''0.9.0'' \<noteq> sha_de28"
  "''99.0.0'' \<noteq> sha_a26e" "''99.0.0'' \<noteq> sha_88af" "''99.0.0'' \<noteq> sha_218c" "''99.0.0'' \<noteq> sha_de28"
  "''1.1.0'' \<noteq> sha_a26e" "''1.1.0'' \<noteq> sha_88af" "''1.1.0'' \<noteq> sha_218c" "''1.1.0'' \<noteq> sha_de28"
  "''0.9.1'' \<noteq> sha_a26e" "''0.9.1'' \<noteq> sha_88af" "''0.9.1'' \<noteq> sha_218c" "''0.9.1'' \<noteq> sha_de28"
  "sha_a26e \<noteq> ''1.0.0''" "sha_88af \<noteq> ''1.0.0''" "sha_218c \<noteq> ''1.0.0''" "sha_de28 \<noteq> ''1.0.0''"
  "sha_a26e \<noteq> ''0.9.0''" "sha_88af \<noteq> ''0.9.0''" "sha_218c \<noteq> ''0.9.0''" "sha_de28 \<noteq> ''0.9.0''"
  "sha_a26e \<noteq> ''99.0.0''" "sha_88af \<noteq> ''99.0.0''" "sha_218c \<noteq> ''99.0.0''" "sha_de28 \<noteq> ''99.0.0''"
  "sha_a26e \<noteq> ''1.1.0''" "sha_88af \<noteq> ''1.1.0''" "sha_218c \<noteq> ''1.1.0''" "sha_de28 \<noteq> ''1.1.0''"
  "sha_a26e \<noteq> ''0.9.1''" "sha_88af \<noteq> ''0.9.1''" "sha_218c \<noteq> ''0.9.1''" "sha_de28 \<noteq> ''0.9.1''"
  by (simp_all add: sha_a26e_def sha_88af_def sha_218c_def sha_de28_def)

lemmas example_simps =
  example_env_def example_deliverable_def example_args_def one_release_def
  run_def main_def select_filenames_def init_state_def check_file_def check_launchpad_def
  check_announce_def check_releases_def check_release_def check_project_def
  add_error_def log_call_def Let_def sha_wf sha_neq sha_version_neq

section \<open>The check of one project of a release\<close>

lemma log_call_prev [simp]:
  "prev_version (log_call c st) = prev_version st"
  "prev_projects (log_call c st) = prev_projects st"
  by (simp_all add: log_call_def)

lemma add_error_prev [simp]:
  "prev_version (add_error e st) = prev_version st"
  "prev_projects (add_error e st) = prev_projects st"
  by (simp_all add: add_error_def)

lemma check_project_prev [simp]:
  "prev_version (check_project env w rel p st) = prev_version st"
  "prev_projects (check_project env w rel p st) = prev_projects st"
  by (simp_all add: check_project_def Let_def split: option.splits)

lemma fold_check_project_prev [simp]:
  "prev_version (fold (check_project env w rel) ps st) = prev_version st"
  "prev_projects (fold (check_project env w rel) ps st) = prev_projects st"
  by (induction ps arbitrary: st) simp_all

text \<open>
  What the projects of a release find in \<open>prev_version\<close> and \<open>prev_projects\<close>: the
  version and the repositories of the release checked just before.
\<close>

lemma check_release_prev:
  "prev_version (check_release env w prev st) = Some (version prev)"
  "prev_projects (check_release env w prev st) = set (map repo (projects prev))"
  by (simp_all add: check_release_def Let_def)

lemma check_releases_snoc:
  "check_releases env w (rels @ [prev, rel]) st =
     (let st1 = check_release env w prev (check_releases env w rels st);
          st2 = st1\<lparr>errors := errors st1 @ map VersionError (validate_version env (version rel))\<rparr>;
          st3 = fold (check_project env w rel) (projects rel) st2
      in st3\<lparr>prev_version := Some (version rel), prev_projects := set (map repo (projects rel))\<rparr>)"
  by (simp add: check_releases_def check_release_def Let_def)

text \<open>
  For every project whose hash the format check rejects, exactly one format error is
  recorded for that project and no call into the repository helpers is made for it (no
  commit lookup, no tag resolution, no clone, no ancestry check).
\<close>

lemma rejected_hash_no_lookup:
  assumes "\<not> is_a_hash (hash p)"
  shows "errors (check_project env w rel p st)
           = errors st @ [NotAHash (repo p) (version rel) (hash p)]
       \<and> calls (check_project env w rel p st) = calls st"
  using assms by (simp add: check_project_def add_error_def)

text \<open>
  C5. For every project whose hash is malformed, that is not forty hexadecimal
  characters, exactly one format error is to be recorded and no repository lookup made.
  That holds for every hash the format check rejects (\<open>rejected_hash_no_lookup\<close>), but
  the check accepts forty hexadecimal characters followed by a line feed (the defect of
  C1): for such a hash no format error is recorded, and the commit lookup, the tag
  lookup and the clone are made.
\<close>

theorem C5_trailing_newline_looked_up:
  "\<not> hex40 sha_a26e_lf
   \<and> errors (check_project (example_env []) ''/tmp/releases-0''
        (one_release ''99.0.0'' sha_a26e_lf)
        \<lparr>repo = release_test, hash = sha_a26e_lf\<rparr> init_state)
      = [NoCommit sha_a26e_lf release_test]
   \<and> calls (check_project (example_env []) ''/tmp/releases-0''
        (one_release ''99.0.0'' sha_a26e_lf)
        \<lparr>repo = release_test, hash = sha_a26e_lf\<rparr> init_state)
      = [CommitExists release_test sha_a26e_lf, CommitExists release_test ''99.0.0'',
         CloneRepo ''/tmp/releases-0'' release_test]"
proof -
  have wf: "is_a_hash sha_a26e_lf"
    by (simp add: sha_a26e_lf_def is_a_hash_def at_dollar_def hex_class_ci_def eval_nat_numeral)
  have nh: "\<not> hex40 sha_a26e_lf" by (simp add: sha_a26e_lf_def hex40_def)
  have ne: "sha_a26e_lf \<noteq> sha_a26e" "sha_a26e_lf \<noteq> sha_88af" "sha_a26e_lf \<noteq> sha_218c"
    "sha_a26e_lf \<noteq> ''1.0.0''" "sha_a26e_lf \<noteq> ''0.9.0''"
    by (simp_all add: sha_a26e_lf_def sha_a26e_def sha_88af_def sha_218c_def)
  show ?thesis
    using wf nh ne
    by (simp add: example_env_def one_release_def init_state_def check_project_def
        add_error_def log_call_def Let_def sha_version_neq)
qed

text \<open>
  C4, as first stated: for a project with a well-formed hash whose version tag already
  exists, either the tag resolves to the claimed hash and no diagnostic is recorded, or
  it resolves to another commit and an error with both values is recorded, and there is
  no third outcome. The existence of the claimed hash is looked up before, and apart
  from, the tag: where that lookup does not find the hash the tag resolves to, the tag
  matches and yet the error "No commit" is recorded.
\<close>

theorem C4_claimed_hash_missing_third_outcome:
  "is_a_hash sha_a26e
   \<and> commit_exists lagging_env release_test ''1.0.0''
   \<and> sha_for_tag lagging_env ''/tmp/releases-0'' release_test ''1.0.0'' = sha_a26e
   \<and> errors (check_project lagging_env ''/tmp/releases-0'' (one_release ''1.0.0'' sha_a26e)
        \<lparr>repo = release_test, hash = sha_a26e\<rparr> init_state)
      = [NoCommit sha_a26e release_test]"
  by (simp add: lagging_env_def example_simps)

text \<open>
  C4. For every project with a well-formed hash whose version tag already exists in
  the repository, the comparison with the tag has exactly two outcomes: the tag resolves
  to the claimed hash and no error is recorded for the tag, or it resolves to something
  else and one error carrying both the actual and the claimed value is recorded. The
  only other error recorded for the project is "No commit", before the comparison, when
  the claimed hash does not exist, whichever way the comparison goes. The comparison is
  the comparison of the two strings.
\<close>

theorem C4_existing_tag_outcomes:
  assumes "is_a_hash (hash p)"
    and "commit_exists env (repo p) (version rel)"
  shows "errors (check_project env w rel p st) =
           errors st
           @ (if commit_exists env (repo p) (hash p) then [] else [NoCommit (hash p) (repo p)])
           @ (if sha_for_tag env w (repo p) (version rel) = hash p then []
              else [TagMismatch (version rel) (repo p)
                      (sha_for_tag env w (repo p) (version rel)) (hash p)])"
  using assms by (simp add: check_project_def add_error_def log_call_def Let_def)

text \<open>
  Version \<^verbatim>\<open>1.0.0\<close> is tagged on \<open>sha_a26e\<close>: claiming \<open>sha_a26e\<close> records nothing,
  claiming \<open>sha_88af\<close> records the mismatch.
\<close>

theorem C4_existing_tag_outcomes_witness:
  "errors (check_project (example_env []) ''/tmp/releases-0'' (one_release ''1.0.0'' sha_a26e)
             \<lparr>repo = release_test, hash = sha_a26e\<rparr> init_state) = []
   \<and> errors (check_project (example_env []) ''/tmp/releases-0'' (one_release ''1.0.0'' sha_88af)
             \<lparr>repo = release_test, hash = sha_88af\<rparr> init_state)
       = [TagMismatch ''1.0.0'' release_test sha_a26e sha_88af]"
proof -
  let ?E = "example_env []" and ?w = "''/tmp/releases-0''"
  have a1: "is_a_hash (hash \<lparr>repo = release_test, hash = sha_a26e\<rparr>)" by (simp add: sha_wf)
  have a2: "commit_exists ?E (repo \<lparr>repo = release_test, hash = sha_a26e\<rparr>)
              (version (one_release ''1.0.0'' sha_a26e))"
    by (simp add: example_env_def one_release_def)
  have b1: "is_a_hash (hash \<lparr>repo = release_test, hash = sha_88af\<rparr>)" by (simp add: sha_wf)
  have b2: "commit_exists ?E (repo \<lparr>repo = release_test, hash = sha_88af\<rparr>)
              (version (one_release ''1.0.0'' sha_88af))"
    by (simp add: example_env_def one_release_def)
  from C4_existing_tag_outcomes [OF a1 a2, of ?w init_state]
       C4_existing_tag_outcomes [OF b1 b2, of ?w init_state]
  show ?thesis
    by (simp add: example_env_def one_release_def init_state_def sha_neq)
qed

text \<open>
  C3, as first stated: for a release after the first, a project with a well-formed hash,
  no tag for the version yet and a repository the previous release names, the error
  "not a descendant" is recorded if and only if the claimed hash is not a descendant of
  the hash the previous release claims for that repository. The code never consults
  that hash: it asks whether the claimed hash descends from the previous release's
  version. Here the previous release \<^verbatim>\<open>1.0.0\<close> claims \<open>sha_88af\<close> while the tag
  \<^verbatim>\<open>1.0.0\<close> is on \<open>sha_a26e\<close>; the new release \<^verbatim>\<open>1.1.0\<close> claims \<open>sha_218c\<close>,
  which descends from the tag but not from \<open>sha_88af\<close>, and no "not a descendant"
  error is recorded.
\<close>

theorem C3_previous_hash_not_consulted:
  "is_a_hash sha_218c
   \<and> \<not> commit_exists (example_env [one_release ''1.0.0'' sha_88af, one_release ''1.1.0'' sha_218c])
         release_test ''1.1.0''
   \<and> \<not> check_ancestry (example_env [one_release ''1.0.0'' sha_88af, one_release ''1.1.0'' sha_218c])
         ''/tmp/releases-0'' release_test sha_88af sha_218c
   \<and> map_sum id errors
       (run (example_env [one_release ''1.0.0'' sha_88af, one_release ''1.1.0'' sha_218c])
          example_args)
     = Inr [TagMismatch ''1.0.0'' release_test sha_a26e sha_88af]"
  by (simp add: example_simps)

text \<open>
  C3. For every release checked after a release \<open>prev\<close> whose version string is not
  empty, and every project with a well-formed hash, no tag for the release's version
  yet and a repository that \<open>prev\<close> names: the error "not a descendant" is recorded if
  and only if \<^verbatim>\<open>check_ancestry\<close> denies that the claimed hash descends from the
  version of \<open>prev\<close> in that repository. The errors recorded for the project are that
  one, after the error for a claimed hash that does not exist, if it does not.
\<close>

theorem C3_descendant_of_previous_version:
  assumes "is_a_hash (hash p)"
    and "\<not> commit_exists env (repo p) (version rel)"
    and "prev_version st = Some (version prev)"
    and "prev_projects st = set (map repo (projects prev))"
    and "version prev \<noteq> []"
    and "repo p \<in> set (map repo (projects prev))"
  shows "errors (check_project env w rel p st) =
           errors st
           @ (if commit_exists env (repo p) (hash p) then [] else [NoCommit (hash p) (repo p)])
           @ (if check_ancestry env w (repo p) (version prev) (hash p) then []
              else [NotDescendant (repo p) (hash p) (version prev)])
       \<and> (NotDescendant (repo p) (hash p) (version prev)
             \<in> set (drop (length (errors st)) (errors (check_project env w rel p st)))
           \<longleftrightarrow> \<not> check_ancestry env w (repo p) (version prev) (hash p))"
  using assms by (auto simp: check_project_def add_error_def log_call_def Let_def)

text \<open>
  After release \<^verbatim>\<open>0.9.0\<close> on \<open>sha_88af\<close>, a new release \<^verbatim>\<open>0.9.1\<close> that claims
  \<open>sha_218c\<close>, a commit of the other branch.
\<close>

theorem C3_descendant_of_previous_version_witness:
  "errors (check_project (example_env []) ''/tmp/releases-0'' (one_release ''0.9.1'' sha_218c)
             \<lparr>repo = release_test, hash = sha_218c\<rparr>
             (check_release (example_env []) ''/tmp/releases-0''
                (one_release ''0.9.0'' sha_88af) init_state))
   = [NotDescendant release_test sha_218c ''0.9.0'']"
proof -
  let ?E = "example_env []" and ?w = "''/tmp/releases-0''"
  let ?prev = "one_release ''0.9.0'' sha_88af" and ?rel = "one_release ''0.9.1'' sha_218c"
  let ?p = "\<lparr>repo = release_test, hash = sha_218c\<rparr>"
  let ?st = "check_release ?E ?w ?prev init_state"
  have h1: "is_a_hash (hash ?p)" by (simp add: sha_wf)
  have h2: "\<not> commit_exists ?E (repo ?p) (version ?rel)"
    by (simp add: example_env_def one_release_def sha_version_neq)
  have h3: "prev_version ?st = Some (version ?prev)" by (rule check_release_prev)
  have h4: "prev_projects ?st = set (map repo (projects ?prev))" by (rule check_release_prev)
  have h5: "version ?prev \<noteq> []" by (simp add: one_release_def)
  have h6: "repo ?p \<in> set (map repo (projects ?prev))" by (simp add: one_release_def)
  have e: "errors ?st = []" by (simp add: example_simps)
  from C3_descendant_of_previous_version [OF h1 h2 h3 h4 h5 h6, of ?w] e
  show ?thesis by (simp add: example_env_def one_release_def sha_neq sha_version_neq)
qed

section \<open>The releases of a deliverable\<close>

lemma version_errors_append [simp]:
  "version_errors (xs @ ys) = version_errors xs @ version_errors ys"
  by (simp add: version_errors_def)

lemma version_errors_map [simp]: "version_errors (map VersionError es) = es"
  by (induction es) (simp_all add: version_errors_def)

lemma version_errors_check_project:
  "version_errors (errors (check_project env w rel p st)) = version_errors (errors st)"
  by (simp add: check_project_def add_error_def log_call_def Let_def version_errors_def
      split: option.split)

lemma version_errors_fold_check_project:
  "version_errors (errors (fold (check_project env w rel) ps st)) = version_errors (errors st)"
  by (induction ps arbitrary: st) (simp_all add: version_errors_check_project)

lemma version_errors_check_release:
  "version_errors (errors (check_release env w rel st))
     = version_errors (errors st) @ validate_version env (version rel)"
  by (simp add: check_release_def Let_def version_errors_fold_check_project)


text \<open>
  The version errors recorded for the releases of a deliverable are the messages
  \<^verbatim>\<open>validate_version\<close> gives for each release's version string taken alone, in the
  order of the releases.
\<close>

lemma version_errors_check_releases:
  "version_errors (errors (check_releases env w rels st))
     = version_errors (errors st) @ concat (map (\<lambda>rel. validate_version env (version rel)) rels)"
  unfolding check_releases_def
  by (induction rels arbitrary: st) (simp_all add: version_errors_check_release)







section \<open>One deliverable after another\<close>

lemma prefix_state_sel [simp]:
  "errors (prefix_state es cs st) = es @ errors st"
  "calls (prefix_state es cs st) = cs @ calls st"
  "prev_version (prefix_state es cs st) = prev_version st"
  "prev_projects (prefix_state es cs st) = prev_projects st"
  by (simp_all add: prefix_state_def)



















section \<open>A whole run\<close>

text \<open>
  C6, as first stated: a deliverable with exactly one release and one project whose
  well-formed hash does not exist in the repository gets exactly one error. When the
  version is already tagged, the tag is on another commit, and a second error is
  recorded.
\<close>

theorem C6_missing_commit_with_existing_tag:
  "is_a_hash sha_de28
   \<and> \<not> commit_exists (example_env [one_release ''1.0.0'' sha_de28]) release_test sha_de28
   \<and> map_sum id errors (run (example_env [one_release ''1.0.0'' sha_de28]) example_args)
       = Inr [NoCommit sha_de28 release_test,
              TagMismatch ''1.0.0'' release_test sha_a26e sha_de28]"
  by (simp add: example_simps)

text \<open>
  C6. For every run over one file whose deliverable names a launchpad project that the
  tracker does not answer with a 4xx status, has an announcement address without a
  space, and has exactly one release, with a valid version that is not tagged yet and
  one project whose well-formed hash does not exist in the repository: the run records
  exactly one error, "No commit hash in repo". The code keeps no list of warnings.
\<close>

theorem C6_single_missing_commit:
  assumes "select_filenames env a = [f]"
    and "isfile env f"
    and "yaml_load env f = d"
    and "launchpad d = Some lp"
    and "requests_get env (''https://api.launchpad.net/1.0/'' @ lp) = Inr status_code"
    and "status_code div 100 \<noteq> 4"
    and "send_announcements_to d = Some announce_to"
    and "CHR '' '' \<notin> set announce_to"
    and "releases d = [rel]"
    and "validate_version env (version rel) = []"
    and "projects rel = [p]"
    and "is_a_hash (hash p)"
    and "\<not> commit_exists env (repo p) (hash p)"
    and "\<not> commit_exists env (repo p) (version rel)"
  shows "map_sum id errors (run env a) = Inr [NoCommit (hash p) (repo p)]"
proof -
  let ?st0 = "init_state\<lparr>prev_version := None, prev_projects := {}\<rparr>"
  have lp: "check_launchpad env f d init_state = Inr init_state"
    using assms(4,5,6) by (simp add: check_launchpad_def)
  have an: "check_announce f d init_state = init_state"
    using assms(7,8) by (simp add: check_announce_def)
  have pr: "errors (check_project env (mkdtemp env) rel p ?st0) = [NoCommit (hash p) (repo p)]"
    using assms(12,13,14)
    by (simp add: check_project_def add_error_def log_call_def Let_def init_state_def)
  have "errors (check_releases env (mkdtemp env) [rel] ?st0) = [NoCommit (hash p) (repo p)]"
    using pr assms(10,11) by (simp add: check_releases_def check_release_def Let_def init_state_def)
  then show ?thesis
    using assms(1,2,3,9) lp an by (simp add: run_def check_file_def Let_def)
qed

text \<open>Release \<^verbatim>\<open>99.0.0\<close>, not tagged, on the commit \<open>sha_de28\<close> that does not exist.\<close>

theorem C6_single_missing_commit_witness:
  "map_sum id errors (run (example_env [one_release ''99.0.0'' sha_de28]) example_args)
     = Inr [NoCommit sha_de28 release_test]"
  using C6_single_missing_commit [of "example_env [one_release ''99.0.0'' sha_de28]" example_args
      "''deliverables/example.yaml''" "example_deliverable [one_release ''99.0.0'' sha_de28]"
      "''oslo.config''" 200 "''openstack-dev@lists.openstack.org''"
      "one_release ''99.0.0'' sha_de28" "\<lparr>repo = release_test, hash = sha_de28\<rparr>"]
  by (simp add: example_env_def example_deliverable_def example_args_def one_release_def
      select_filenames_def sha_wf sha_neq sha_version_neq)

text \<open>
  For every run that reaches its end, the status \<^verbatim>\<open>main\<close> returns is non-zero if and
  only if the list of errors is not empty at that point. The status is computed from
  the errors alone; the code keeps no list of warnings.
\<close>

lemma returning_run_exit_status:
  assumes "main env a = Inr code"
  shows "\<exists>st. run env a = Inr st \<and> (code \<noteq> 0 \<longleftrightarrow> errors st \<noteq> [])"
  using assms by (auto simp: main_def split: sum.splits if_splits)

text \<open>A 4xx answer of the tracker is recorded as an error.\<close>

lemma launchpad_4xx_is_error:
  assumes "launchpad d = Some lp_name"
    and "requests_get env (''https://api.launchpad.net/1.0/'' @ lp_name) = Inr status_code"
    and "status_code div 100 = 4"
  shows "check_launchpad env f d st = Inr (add_error (LaunchpadMissing lp_name) st)"
  using assms by (simp add: check_launchpad_def)

text \<open>
  C8. A 4xx answer of the bug tracker is to be recorded as an error, and a timeout or
  connection failure of the request as a warning, without aborting the run. The first
  half holds (\<open>launchpad_4xx_is_error\<close>). For the second, \<^verbatim>\<open>main\<close> has no handler
  around \<^verbatim>\<open>requests.get\<close>: when the request for the launchpad project of the first
  file raises, the exception leaves \<^verbatim>\<open>main\<close>, nothing is recorded and no further
  check is made.
\<close>

theorem C8_timeout_aborts_run:
  "launchpad (yaml_load timeout_env ''deliverables/example.yaml'') = Some ''oslo.config''
   \<and> requests_get timeout_env (''https://api.launchpad.net/1.0/'' @ ''oslo.config'')
       = Inl RequestException
   \<and> run timeout_env example_args = Inl RequestException
   \<and> main timeout_env example_args = Inl RequestException"
  by (simp add: timeout_env_def example_simps)

text \<open>
  C7. For every run, the exit status is to be non-zero if and only if the list of
  errors is not empty when the run ends. That holds for every run in which \<^verbatim>\<open>main\<close>
  returns (\<open>returning_run_exit_status\<close>). In the run of C8 the request for the launchpad
  project of the first file raises while the list of errors is still empty, the
  exception leaves \<^verbatim>\<open>main\<close>, and the process exits with status 1.
\<close>

theorem C7_aborted_run_exit_status:
  "check_launchpad timeout_env ''deliverables/example.yaml''
      (yaml_load timeout_env ''deliverables/example.yaml'') init_state = Inl RequestException
   \<and> errors init_state = []
   \<and> main timeout_env example_args = Inl RequestException
   \<and> exit_status (main timeout_env example_args) = 1"
  by (simp add: timeout_env_def exit_status_def example_simps)

section \<open>The working directory at exit\<close>

text \<open>
  C9, as first stated: when cleanup was requested, the working directory is removed on
  process exit. When \<^verbatim>\<open>shutil.rmtree\<close> fails, the handler swallows the failure and the
  directory is still there after the exit.
\<close>

theorem C9_failed_removal_leaves_directory:
  "cleanup example_args
   \<and> mkdtemp rmtree_fails_env \<in> snd (process rmtree_fails_env example_args {})"
  by (simp add: process_def cleanup_workdir_def rmtree_fails_env_def example_env_def
      example_args_def Let_def)

text \<open>
  C9. When the interpreter exits, after \<^verbatim>\<open>main\<close> has returned or an exception has left
  it, the working directory of the run is gone if and only if cleanup was requested and
  its removal succeeded: a failed removal is ignored, and when the caller opted out no
  removal is attempted. No other directory is touched.
\<close>

theorem C9_cleanup_at_exit:
  "fst (process env a dirs) = main env a
   \<and> (mkdtemp env \<notin> snd (process env a dirs) \<longleftrightarrow> cleanup a \<and> rmtree env (mkdtemp env))
   \<and> snd (process env a dirs) - {mkdtemp env} = dirs - {mkdtemp env}"
  by (auto simp: process_def cleanup_workdir_def Let_def)

theorem C9_cleanup_at_exit_witness:
  "mkdtemp (example_env []) \<notin> snd (process (example_env []) example_args {})
   \<and> mkdtemp (example_env [])
       \<in> snd (process (example_env []) (example_args\<lparr>cleanup := False\<rparr>) {})"
  using C9_cleanup_at_exit [of "example_env []" example_args "{}"]
    C9_cleanup_at_exit [of "example_env []" "example_args\<lparr>cleanup := False\<rparr>" "{}"]
  by (simp add: example_env_def example_args_def)

end
